theory Spec2Isabelle
  imports Main
begin

section \<open>Dates and times\<close>

text \<open>
  The calendar code of \<^verbatim>\<open>services/tools/calendar_tools.py\<close> works on Python
  \<^verbatim>\<open>datetime\<close> values that carry a time zone. A naive datetime is modelled by its
  wall-clock reading: the number of microseconds since the midnight of a fixed day 0.
  An aware datetime is that reading together with the UTC offset of its \<^verbatim>\<open>tzinfo\<close>.
  A \<^verbatim>\<open>timedelta\<close> is a number of microseconds.

  Python compares and subtracts aware datetimes on the UTC time line, reads
  \<^verbatim>\<open>.date()\<close>, \<^verbatim>\<open>.hour\<close> and \<^verbatim>\<open>.minute\<close> from the wall clock, and adds a timedelta
  to the wall clock without changing the \<^verbatim>\<open>tzinfo\<close>. The year range of Python
  datetimes (1 to 9999) is not modelled.
\<close>

type_synonym naive = int
type_synonym timedelta = int

record datetime =
  wall :: naive
  utcoff :: timedelta

definition td_minutes :: "int \<Rightarrow> timedelta" where
  "td_minutes n = n * 60000000"

definition td_hours :: "int \<Rightarrow> timedelta" where
  "td_hours n = n * 3600000000"

definition td_days :: "int \<Rightarrow> timedelta" where
  "td_days n = n * 86400000000"

definition naive_date :: "naive \<Rightarrow> int" where
  "naive_date w = w div 86400000000"

definition naive_hour :: "naive \<Rightarrow> int" where
  "naive_hour w = (w mod 86400000000) div 3600000000"

definition naive_minute :: "naive \<Rightarrow> int" where
  "naive_minute w = (w mod 3600000000) div 60000000"

definition naive_second :: "naive \<Rightarrow> int" where
  "naive_second w = (w mod 60000000) div 1000000"

definition naive_microsecond :: "naive \<Rightarrow> int" where
  "naive_microsecond w = w mod 1000000"

text \<open>\<^verbatim>\<open>replace(hour=h)\<close> and its siblings change one field and keep the others.\<close>

definition replace_hour :: "int \<Rightarrow> naive \<Rightarrow> naive" where
  "replace_hour h w = w + td_hours (h - naive_hour w)"

definition replace_minute :: "int \<Rightarrow> naive \<Rightarrow> naive" where
  "replace_minute m w = w + td_minutes (m - naive_minute w)"

definition replace_second :: "int \<Rightarrow> naive \<Rightarrow> naive" where
  "replace_second s w = w + (s - naive_second w) * 1000000"

definition replace_microsecond :: "int \<Rightarrow> naive \<Rightarrow> naive" where
  "replace_microsecond u w = w + (u - naive_microsecond w)"

definition dt_date :: "datetime \<Rightarrow> int" where
  "dt_date d = naive_date (wall d)"

definition dt_hour :: "datetime \<Rightarrow> int" where
  "dt_hour d = naive_hour (wall d)"

definition dt_minute :: "datetime \<Rightarrow> int" where
  "dt_minute d = naive_minute (wall d)"

definition on_wall :: "(naive \<Rightarrow> naive) \<Rightarrow> datetime \<Rightarrow> datetime" where
  "on_wall f d = d\<lparr>wall := f (wall d)\<rparr>"

definition instant :: "datetime \<Rightarrow> int" where
  "instant d = wall d - utcoff d"

definition dt_sub :: "datetime \<Rightarrow> datetime \<Rightarrow> timedelta" where
  "dt_sub a b = instant a - instant b"

definition dt_add :: "datetime \<Rightarrow> timedelta \<Rightarrow> datetime" where
  "dt_add d t = on_wall (\<lambda>w. w + t) d"

definition dt_less :: "datetime \<Rightarrow> datetime \<Rightarrow> bool" where
  "dt_less a b = (instant a < instant b)"

definition dt_le :: "datetime \<Rightarrow> datetime \<Rightarrow> bool" where
  "dt_le a b = (instant a \<le> instant b)"

text \<open>
  \<^verbatim>\<open>tz.localize(n)\<close> attaches the zone to a naive datetime. The zone is a parameter:
  the function from a wall-clock reading to the UTC offset in force then.
\<close>

type_synonym tzone = "naive \<Rightarrow> timedelta"

definition localize :: "tzone \<Rightarrow> naive \<Rightarrow> datetime" where
  "localize tz n = \<lparr>wall = n, utcoff = tz n\<rparr>"

text \<open>
  \<^verbatim>\<open>(a - b).total_seconds() / 60 >= n\<close> for an integer \<open>n\<close> of minutes: the
  comparison is modelled exactly, on microseconds.
\<close>

definition gap_fits :: "timedelta \<Rightarrow> int \<Rightarrow> bool" where
  "gap_fits gap total_time_needed = (td_minutes total_time_needed \<le> gap)"

subsection \<open>Rendering\<close>

text \<open>
  \<^verbatim>\<open>strftime("%I:%M %p")\<close>: the hour on the 12-hour clock and the minute, each as two
  digits, then AM or PM. Texts are strings of bytes.
\<close>

definition digit :: "int \<Rightarrow> char" where
  "digit n = char_of (48 + n)"

definition two_digits :: "int \<Rightarrow> string" where
  "two_digits n = [digit (n div 10), digit (n mod 10)]"

definition hour12 :: "int \<Rightarrow> int" where
  "hour12 h = (if h mod 12 = 0 then 12 else h mod 12)"

definition strftime_IMp :: "datetime \<Rightarrow> string" where
  "strftime_IMp d =
     two_digits (hour12 (dt_hour d)) @ '':'' @ two_digits (dt_minute d) @
     (if dt_hour d < 12 then '' AM'' else '' PM'')"

definition lstrip0 :: "string \<Rightarrow> string" where
  "lstrip0 s = dropWhile (\<lambda>c. c = CHR ''0'') s"

section \<open>Events and slots\<close>

record event =
  ev_name :: string
  ev_start :: datetime
  ev_end :: datetime
  ev_location :: string

datatype slot_type = before_first_event | between_events | after_last_event | free_day

text \<open>
  A free window as \<^verbatim>\<open>_find_available_slots\<close> computes it, before it is rendered:
  the two datetimes whose \<^verbatim>\<open>strftime\<close> the emitted dictionary holds.
\<close>

record gap =
  gap_start :: datetime
  gap_end :: datetime
  gap_type :: slot_type
  gap_note :: string

record slot =
  start_time :: string
  end_time :: string
  slot_date :: string
  slot_kind :: slot_type
  slot_note :: string

fun gaps_between :: "event list \<Rightarrow> int \<Rightarrow> timedelta \<Rightarrow> gap list" where
  "gaps_between (e1 # e2 # es) total_time_needed buffer =
     (let current_end = dt_add (ev_end e1) buffer;
          next_start = dt_add (ev_start e2) (- buffer)
      in (if gap_fits (dt_sub next_start current_end) total_time_needed
          then [\<lparr>gap_start = current_end, gap_end = next_start, gap_type = between_events,
                  gap_note = ''Between '' @ ev_name e1 @ '' and '' @ ev_name e2\<rparr>]
          else []))
     @ gaps_between (e2 # es) total_time_needed buffer"
| "gaps_between es total_time_needed buffer = []"

text \<open>
  The local variables of \<^verbatim>\<open>_find_available_slots\<close>: \<^verbatim>\<open>day_start\<close>, the start of the
  search window (09:00 of the target day, or now plus 30 minutes); \<^verbatim>\<open>target\<close>, the
  target date in the zone; \<^verbatim>\<open>day_end\<close>, 19:00 of the target day; and
  \<^verbatim>\<open>day_events\<close>, the events that start on the target date, sorted by start. Python's
  sort is stable, as \<open>sort_key\<close> is.
\<close>

definition window_start :: "datetime \<Rightarrow> datetime \<Rightarrow> datetime" where
  "window_start now target =
     (if dt_date now = dt_date target \<and> 9 \<le> dt_hour now
      then dt_add now (td_minutes 30)
      else on_wall (replace_minute 0) (on_wall (replace_hour 9) target))"

definition target_midnight :: "tzone \<Rightarrow> naive \<Rightarrow> datetime" where
  "target_midnight tz td = localize tz (replace_second 0 (replace_minute 0 (replace_hour 0 td)))"

definition business_end :: "datetime \<Rightarrow> datetime" where
  "business_end target = on_wall (replace_minute 0) (on_wall (replace_hour 19) target)"

definition day_events_of :: "event list \<Rightarrow> datetime \<Rightarrow> event list" where
  "day_events_of events target =
     sort_key (\<lambda>e. instant (ev_start e))
       (filter (\<lambda>e. dt_date (ev_start e) = dt_date target) events)"

text \<open>
  \<^verbatim>\<open>_find_available_slots\<close>, up to rendering. The target date is \<open>None\<close> when the
  caller passes \<^verbatim>\<open>None\<close> or the empty string (both are false in \<^verbatim>\<open>if target_date:\<close>),
  and otherwise the naive datetime that \<^verbatim>\<open>datetime.fromisoformat\<close> returns. \<open>now\<close> is
  the clock reading \<^verbatim>\<open>datetime.now(tz)\<close> of the function.
\<close>

definition available_gaps ::
    "tzone \<Rightarrow> datetime \<Rightarrow> event list \<Rightarrow> naive option \<Rightarrow> int \<Rightarrow> int \<Rightarrow> gap list" where
  "available_gaps tz now events target_date total_time_needed buffer_time =
     (case target_date of
        None \<Rightarrow> []
      | Some td \<Rightarrow>
          (let target = target_midnight tz td;
               day_events = day_events_of events target;
               day_start = window_start now target
           in if day_events \<noteq> [] then
                (let first_event_start =
                       dt_add (ev_start (hd day_events)) (- td_minutes buffer_time);
                     last_event_end =
                       dt_add (ev_end (last day_events)) (td_minutes buffer_time);
                     day_end = business_end target
                 in (if gap_fits (dt_sub first_event_start day_start) total_time_needed
                     then [\<lparr>gap_start = day_start, gap_end = first_event_start,
                             gap_type = before_first_event,
                             gap_note = ''Before your '' @ ev_name (hd day_events)\<rparr>]
                     else [])
                    @ gaps_between day_events total_time_needed (td_minutes buffer_time)
                    @ (if gap_fits (dt_sub day_end last_event_end) total_time_needed
                       then [\<lparr>gap_start = last_event_end, gap_end = day_end,
                               gap_type = after_last_event,
                               gap_note = ''After your '' @ ev_name (last day_events)\<rparr>]
                       else []))
              else [\<lparr>gap_start = day_start, gap_end = business_end target,
                      gap_type = free_day, gap_note = ''Your calendar is free this day!''\<rparr>]))"

text \<open>
  The dictionary appended for a window. \<^verbatim>\<open>strftime("%A, %B %d")\<close> of the library is
  the parameter \<open>fmt_day\<close>.
\<close>

definition render_slot :: "(datetime \<Rightarrow> string) \<Rightarrow> datetime \<Rightarrow> gap \<Rightarrow> slot" where
  "render_slot fmt_day target g =
     \<lparr>start_time = strftime_IMp (gap_start g), end_time = strftime_IMp (gap_end g),
      slot_date = fmt_day target, slot_kind = gap_type g, slot_note = gap_note g\<rparr>"

definition find_available_slots ::
    "(datetime \<Rightarrow> string) \<Rightarrow> tzone \<Rightarrow> datetime \<Rightarrow> event list \<Rightarrow> naive option \<Rightarrow> int \<Rightarrow> int
       \<Rightarrow> slot list" where
  "find_available_slots fmt_day tz now events target_date total_time_needed buffer_time =
     (case target_date of
        None \<Rightarrow> []
      | Some td \<Rightarrow>
          map (render_slot fmt_day (target_midnight tz td))
            (available_gaps tz now events target_date total_time_needed buffer_time))"

section \<open>The best slot of a day\<close>

definition preferred_hours :: "int list" where
  "preferred_hours = [10, 11, 12, 13, 14]"

text \<open>
  The busy periods of \<^verbatim>\<open>_find_best_slot_for_day\<close>: each event with the buffer on both
  sides, sorted by start. A free window there is a dictionary of start, end and the
  length in minutes; the length is never read again, so a window is the pair of start
  and end.
\<close>

type_synonym period = "datetime \<times> datetime"

definition busy_period :: "int \<Rightarrow> event \<Rightarrow> period" where
  "busy_period buffer_time e =
     (dt_add (ev_start e) (- td_minutes buffer_time), dt_add (ev_end e) (td_minutes buffer_time))"

definition busy_periods_of :: "event list \<Rightarrow> int \<Rightarrow> period list" where
  "busy_periods_of events_on_day buffer_time =
     sort_key (\<lambda>p. instant (fst p)) (map (busy_period buffer_time) events_on_day)"

fun free_between :: "period list \<Rightarrow> int \<Rightarrow> period list" where
  "free_between (p1 # p2 # ps) total_time_needed =
     (if gap_fits (dt_sub (fst p2) (snd p1)) total_time_needed then [(snd p1, fst p2)] else [])
     @ free_between (p2 # ps) total_time_needed"
| "free_between ps total_time_needed = []"

text \<open>
  The local variables \<^verbatim>\<open>day_start\<close> and \<^verbatim>\<open>day_end\<close> of \<^verbatim>\<open>_find_best_slot_for_day\<close>,
  and its list \<^verbatim>\<open>available_slots\<close>: the windows before the first busy period, between
  consecutive ones and after the last that hold the required minutes.
\<close>

definition best_day_start :: "tzone \<Rightarrow> datetime \<Rightarrow> datetime \<Rightarrow> datetime" where
  "best_day_start tz target_day now =
     (let day_start = localize tz (replace_microsecond 0 (replace_second 0
                        (replace_minute 0 (replace_hour 9 (wall target_day)))))
      in if dt_date target_day = dt_date now
         then (let earliest_start = dt_add now (td_hours 1)
               in if dt_less day_start earliest_start then earliest_start else day_start)
         else day_start)"

definition best_day_end :: "tzone \<Rightarrow> datetime \<Rightarrow> datetime" where
  "best_day_end tz target_day =
     localize tz (replace_microsecond 0 (replace_second 0
       (replace_minute 0 (replace_hour 19 (wall target_day)))))"

definition free_periods :: "tzone \<Rightarrow> datetime \<Rightarrow> event list \<Rightarrow> int \<Rightarrow> int \<Rightarrow> datetime
    \<Rightarrow> period list" where
  "free_periods tz target_day events_on_day total_time_needed buffer_time now =
     (let day_start = best_day_start tz target_day now;
          day_end = best_day_end tz target_day;
          busy_periods = busy_periods_of events_on_day buffer_time
      in (if dt_less day_start (fst (hd busy_periods))
             \<and> gap_fits (dt_sub (fst (hd busy_periods)) day_start) total_time_needed
          then [(day_start, fst (hd busy_periods))] else [])
         @ free_between busy_periods total_time_needed
         @ (if dt_less (snd (last busy_periods)) day_end
               \<and> gap_fits (dt_sub day_end (snd (last busy_periods))) total_time_needed
            then [(snd (last busy_periods), day_end)] else []))"

text \<open>
  The two nested loops over the windows and the preferred hours, with their early
  return: the datetime that the function renders and returns there, if any.
\<close>

fun try_hours :: "period \<Rightarrow> int list \<Rightarrow> datetime option" where
  "try_hours slot [] = None"
| "try_hours slot (preferred_hour # hs) =
     (if dt_hour (fst slot) \<le> preferred_hour \<and> preferred_hour < dt_hour (snd slot)
      then (let suggested_dt =
                  on_wall (replace_minute 0) (on_wall (replace_hour preferred_hour) (fst slot))
            in if dt_le (fst slot) suggested_dt \<and> dt_less suggested_dt (snd slot)
               then Some suggested_dt
               else try_hours slot hs)
      else try_hours slot hs)"

fun try_slots :: "period list \<Rightarrow> datetime option" where
  "try_slots [] = None"
| "try_slots (slot # slots) =
     (case try_hours slot preferred_hours of
        Some d \<Rightarrow> Some d
      | None \<Rightarrow> try_slots slots)"

text \<open>The datetime rendered when no preferred hour fits: the rounded start of the first window.\<close>

definition round_first_slot :: "period \<Rightarrow> datetime" where
  "round_first_slot first_slot =
     (let suggested_minute = (if dt_minute (fst first_slot) < 30 then 0 else 30)
      in if 30 < dt_minute (fst first_slot)
         then dt_add (on_wall (replace_minute 0) (fst first_slot)) (td_hours 1)
         else on_wall (replace_minute suggested_minute) (fst first_slot))"

text \<open>
  \<^verbatim>\<open>_find_best_slot_for_day\<close>. Inside the branch with events the list of busy periods
  is not empty, so its first and last elements exist.
\<close>

definition find_best_slot_for_day ::
    "tzone \<Rightarrow> datetime \<Rightarrow> event list \<Rightarrow> int \<Rightarrow> int \<Rightarrow> datetime \<Rightarrow> string" where
  "find_best_slot_for_day tz target_day events_on_day total_time_needed buffer_time now =
     (if events_on_day = [] then ''11:00 AM''
      else (let available_slots =
                  free_periods tz target_day events_on_day total_time_needed buffer_time now
            in if available_slots = [] then ''No available time''
               else (case try_slots available_slots of
                       Some suggested_dt \<Rightarrow> lstrip0 (strftime_IMp suggested_dt)
                     | None \<Rightarrow>
                         lstrip0 (strftime_IMp (round_first_slot (hd available_slots))))))"

section \<open>Texts\<close>

text \<open>
  Python strings are modelled as strings of bytes; \<^verbatim>\<open>str.lower\<close> is modelled on the
  ASCII letters, which is where the keywords of this module live.
\<close>

definition lower_char :: "char \<Rightarrow> char" where
  "lower_char c =
     (if 65 \<le> (of_char c :: nat) \<and> (of_char c :: nat) \<le> 90
      then char_of ((of_char c :: nat) + 32) else c)"

definition lower :: "string \<Rightarrow> string" where
  "lower s = map lower_char s"

fun starts_with :: "string \<Rightarrow> string \<Rightarrow> bool" where
  "starts_with [] s = True"
| "starts_with (k # ks) [] = False"
| "starts_with (k # ks) (c # cs) = (k = c \<and> starts_with ks cs)"

text \<open>\<^verbatim>\<open>kw in s\<close> on strings: \<open>kw\<close> occurs in \<open>s\<close> as a contiguous piece.\<close>

fun py_in :: "string \<Rightarrow> string \<Rightarrow> bool" where
  "py_in kw [] = (kw = [])"
| "py_in kw (c # cs) = (starts_with kw (c # cs) \<or> py_in kw cs)"

definition any_in :: "string list \<Rightarrow> string \<Rightarrow> bool" where
  "any_in kws s = list_ex (\<lambda>kw. py_in kw s) kws"

text \<open>\<^verbatim>\<open>sep.join(parts)\<close>.\<close>

fun join :: "string \<Rightarrow> string list \<Rightarrow> string" where
  "join sep [] = []"
| "join sep [p] = p"
| "join sep (p # q # ps) = p @ sep @ join sep (q # ps)"

fun decimal :: "nat \<Rightarrow> string" where
  "decimal n =
     (if n < 10 then [char_of (48 + n)]
      else decimal (n div 10) @ [char_of (48 + n mod 10)])"

section \<open>Importance of an event\<close>

definition SERVICE_DURATIONS :: "(string \<times> int) list" where
  "SERVICE_DURATIONS =
     [(''haircut'', 60),
      (''nails'', 45),
      (''manicure'', 30),
      (''pedicure'', 45),
      (''massage'', 90),
      (''facial'', 60),
      (''waxing'', 30),
      (''makeup'', 45),
      (''spa'', 120),
      (''default'', 60)]"

definition service_duration_of :: "string \<Rightarrow> int" where
  "service_duration_of service_type =
     (case map_of SERVICE_DURATIONS (lower service_type) of
        Some d \<Rightarrow> d
      | None \<Rightarrow> 60)"

definition IMPORTANT_EVENT_KEYWORDS :: "string list" where
  "IMPORTANT_EVENT_KEYWORDS =
     [''meeting'', ''interview'', ''presentation'', ''conference'', ''pitch'',
      ''client'', ''networking'', ''board meeting'', ''review'', ''demo'',
      ''wedding'', ''baby shower'', ''bridal shower'', ''birthday party'',
      ''engagement'', ''anniversary'', ''graduation'', ''gala'',
      ''fundraiser'', ''date'', ''date night'', ''dinner party'',
      ''reception'', ''competition'', ''recital'', ''performance'',
      ''photoshoot'', ''photo'', ''video'', ''recording'', ''audition'',
      ''show'', ''family dinner'', ''reunion'', ''holiday'', ''thanksgiving'',
      ''christmas'', ''easter'', ''passover'', ''new year'', ''party'']"

definition get_importance_reason :: "string \<Rightarrow> string" where
  \<open>get_importance_reason event_name_lower =
     (if any_in [''wedding'', ''bridal'', ''engagement''] event_name_lower
      then ''Special celebration where you'll want to look your absolute best''
      else if any_in [''interview'', ''pitch'', ''client'', ''board''] event_name_lower
      then ''Professional event where first impressions matter''
      else if any_in [''date'', ''anniversary''] event_name_lower
      then ''Romantic occasion where looking great is a must''
      else if any_in [''photo'', ''video'', ''performance''] event_name_lower
      then ''You'll be photographed or on camera''
      else if any_in [''party'', ''gala'', ''dinner''] event_name_lower
      then ''Social event with many people''
      else if any_in [''meeting'', ''conference'', ''presentation''] event_name_lower
      then ''Professional gathering where you'll meet important people''
      else ''Important event where looking polished matters'')\<close>

definition is_important :: "string \<Rightarrow> bool" where
  "is_important event_name = any_in IMPORTANT_EVENT_KEYWORDS (lower event_name)"

section \<open>The analysis\<close>

text \<open>
  An event as the calendar provider returns it. The start and the end are modelled by
  the aware datetime that the parsing block of
  \<^verbatim>\<open>analyze_calendar_for_smart_suggestions\<close> builds from the provider's text, and are
  \<open>None\<close> when the field is missing or its parsing raises: the loop skips the event in
  both cases.
\<close>

record raw_event =
  raw_summary :: "string option"
  raw_start :: "datetime option"
  raw_end :: "datetime option"
  raw_location :: "string option"

record important_event =
  ie_name :: string
  ie_date :: string
  ie_time :: string
  ie_start_dt :: datetime
  ie_why_important :: string

record date_event =
  de_name :: string
  de_start_time :: string
  de_end_time :: string
  de_location :: string

record day_before_suggestion =
  event_name :: string
  event_date :: string
  suggested_day :: string
  suggested_time :: string
  reason :: string

record analysis =
  has_calendar :: bool
  suggested_slots :: "slot list"
  important_events :: "important_event list"
  day_before_suggestions :: "day_before_suggestion list"
  events_on_date :: "date_event list"
  reasoning :: string
  smart_suggestion :: string

definition initial_result :: analysis where
  "initial_result =
     \<lparr>has_calendar = False, suggested_slots = [], important_events = [],
      day_before_suggestions = [], events_on_date = [], reasoning = [],
      smart_suggestion = []\<rparr>"

subsection \<open>The suggestion text\<close>

definition events_sentence :: "date_event list \<Rightarrow> string list" where
  "events_sentence events =
     (case events of
        [] \<Rightarrow> []
      | [e] \<Rightarrow> [''I see you have '' @ de_name e @ '' at '' @ de_start_time e @ ''.'']
      | [e1, e2] \<Rightarrow>
          [''I see from your calendar you have '' @ de_name e1 @ '' at '' @ de_start_time e1
           @ '', '' @ ''and '' @ de_name e2 @ '' at '' @ de_start_time e2 @ ''.'']
      | first # _ \<Rightarrow>
          [''I see you have '' @ decimal (length events)
           @ '' events that day, starting with '' @ de_name first @ '' at ''
           @ de_start_time first @ ''.''])"

definition slots_sentence :: "slot list \<Rightarrow> string \<Rightarrow> string list" where
  \<open>slots_sentence slots service_type =
     (case slots of
        [] \<Rightarrow> []
      | slot # _ \<Rightarrow>
          (if slot_kind slot = between_events
           then [''How about between your appointments? '' @ start_time slot @ '' to ''
                 @ end_time slot @ '' '' @ ''would give you enough time for your ''
                 @ service_type @ '' with buffer time to spare!'']
           else if slot_kind slot = free_day
           then [''Your calendar is free that day! I'd suggest late morning or early afternoon ''
                 @ ''when you have plenty of time to enjoy your '' @ service_type @ ''.'']
           else [''I'd suggest around '' @ start_time slot @ '' - ''
                 @ lower (slot_note slot) @ ''.'']))\<close>

text \<open>
  The paragraph for the first day-before suggestion. It opens with two line feeds and
  the four code points U+00F0, U+0178, U+2019 and U+00A1 of the source text, here in
  UTF-8.
\<close>

definition day_before_sentence :: "day_before_suggestion list \<Rightarrow> string \<Rightarrow> string list" where
  \<open>day_before_sentence suggestions service_type =
     (case suggestions of
        [] \<Rightarrow> []
      | important # _ \<Rightarrow>
          [[CHR 0x0A, CHR 0x0A, CHR 0xC3, CHR 0xB0, CHR 0xC5, CHR 0xB8, CHR 0xE2, CHR 0x80,
            CHR 0x99, CHR 0xC2, CHR 0xA1]
           @ '' I noticed you have '' @ event_name important @ '' on ''
           @ event_date important @ ''! ''
           @ ''How about getting your '' @ service_type @ '' done the day before on ''
           @ suggested_day important @ '' around '' @ suggested_time important @ ''? ''
           @ ''That way you'll look fresh and have plenty of time to get ready for your big event!''])\<close>

text \<open>\<^verbatim>\<open>_build_smart_suggestion\<close>. The service duration is a parameter that is not read.\<close>

definition build_smart_suggestion ::
    "analysis \<Rightarrow> string \<Rightarrow> int \<Rightarrow> naive option \<Rightarrow> string" where
  "build_smart_suggestion analysis service_type service_duration target_date =
     (if has_calendar analysis
      then join '' ''
             ((case target_date of
                 None \<Rightarrow> []
               | Some td \<Rightarrow> events_sentence (events_on_date analysis))
              @ slots_sentence (suggested_slots analysis) service_type
              @ day_before_sentence (day_before_suggestions analysis) service_type)
      else [])"

subsection \<open>The entry point\<close>

definition date_range :: "tzone \<Rightarrow> datetime \<Rightarrow> naive option \<Rightarrow> datetime \<times> datetime" where
  "date_range tz now target_date =
     (case target_date of
        Some td \<Rightarrow>
          (let start_date = localize tz (replace_second 0 (replace_minute 0 (replace_hour 0 td)))
           in (start_date, dt_add start_date (td_days 1)))
      | None \<Rightarrow>
          (let start_date =
                 on_wall (replace_microsecond 0) (on_wall (replace_second 0)
                   (on_wall (replace_minute 0) (on_wall (replace_hour 0) now)))
           in (start_date, dt_add start_date (td_days 7))))"

text \<open>One turn of the loop over the fetched events: \<open>None\<close> where the loop continues.\<close>

definition process_event :: "datetime \<Rightarrow> raw_event \<Rightarrow> event option" where
  "process_event now event =
     (case raw_start event of
        None \<Rightarrow> None
      | Some start_dt \<Rightarrow>
          (case raw_end event of
             None \<Rightarrow> None
           | Some end_dt \<Rightarrow>
               if dt_less end_dt now then None
               else Some \<lparr>ev_name = (case raw_summary event of None \<Rightarrow> ''Busy'' | Some n \<Rightarrow> n),
                          ev_start = start_dt, ev_end = end_dt,
                          ev_location = (case raw_location event of None \<Rightarrow> [] | Some l \<Rightarrow> l)\<rparr>))"

definition process_events :: "datetime \<Rightarrow> raw_event list \<Rightarrow> event list" where
  "process_events now events = List.map_filter (process_event now) events"

definition important_of :: "(datetime \<Rightarrow> string) \<Rightarrow> event \<Rightarrow> important_event" where
  "important_of fmt_day e =
     \<lparr>ie_name = ev_name e, ie_date = fmt_day (ev_start e), ie_time = strftime_IMp (ev_start e),
      ie_start_dt = ev_start e, ie_why_important = get_importance_reason (lower (ev_name e))\<rparr>"

definition important_events_of :: "(datetime \<Rightarrow> string) \<Rightarrow> event list \<Rightarrow> important_event list" where
  "important_events_of fmt_day processed_events =
     map (important_of fmt_day) (filter (\<lambda>e. is_important (ev_name e)) processed_events)"

definition date_event_of :: "event \<Rightarrow> date_event" where
  "date_event_of e =
     \<lparr>de_name = ev_name e, de_start_time = strftime_IMp (ev_start e),
      de_end_time = strftime_IMp (ev_end e), de_location = ev_location e\<rparr>"

text \<open>
  One turn of the loop over the important events: \<open>None\<close> where the loop continues
  without appending a suggestion.
\<close>

definition day_before_of ::
    "(datetime \<Rightarrow> string) \<Rightarrow> tzone \<Rightarrow> datetime \<Rightarrow> event list \<Rightarrow> string \<Rightarrow> int \<Rightarrow> int
       \<Rightarrow> important_event \<Rightarrow> day_before_suggestion option" where
  "day_before_of fmt_day tz now processed_events service_type total_time_needed buffer_time
       important_event =
     (let event_start = ie_start_dt important_event
      in if dt_sub event_start now < td_hours 24 then None
         else (let day_before = dt_add event_start (- td_days 1);
                   day_before_events =
                     sort_key (\<lambda>e. instant (ev_start e))
                       (filter (\<lambda>e. dt_date (ev_start e) = dt_date day_before) processed_events)
               in Some \<lparr>event_name = ie_name important_event,
                         event_date = ie_date important_event,
                         suggested_day = fmt_day day_before,
                         suggested_time =
                           find_best_slot_for_day tz day_before day_before_events
                             total_time_needed buffer_time now,
                         reason = ''Get your '' @ service_type @ '' done before ''
                           @ ie_name important_event @ '' so you look your best!''\<rparr>))"

text \<open>
  \<^verbatim>\<open>analyze_calendar_for_smart_suggestions\<close>. Its surroundings are parameters:
  \<open>has_token\<close> says whether the user exists and has an access token, \<open>fetch\<close> is the
  provider's listing of the events between two datetimes (\<open>Inl\<close> with the message when
  the call raises), \<open>now\<close> is the clock reading of the function and \<open>now_slots\<close> the
  later one that \<^verbatim>\<open>_find_available_slots\<close> takes. The target date is taken as
  parsed.
\<close>

definition analyze_calendar_for_smart_suggestions ::
    "(datetime \<Rightarrow> string) \<Rightarrow> tzone \<Rightarrow> datetime \<Rightarrow> datetime \<Rightarrow> bool
       \<Rightarrow> (datetime \<Rightarrow> datetime \<Rightarrow> string + raw_event list)
       \<Rightarrow> string \<Rightarrow> naive option \<Rightarrow> analysis" where
  "analyze_calendar_for_smart_suggestions fmt_day tz now now_slots has_token fetch
       service_type target_date =
     (if has_token then
        (let service_duration = service_duration_of service_type;
             buffer_time = 30;
             total_time_needed = service_duration + buffer_time * 2;
             window = date_range tz now target_date
         in case fetch (fst window) (snd window) of
              Inl e \<Rightarrow>
                initial_result\<lparr>has_calendar := True,
                  reasoning := ''Error analyzing calendar: '' @ e\<rparr>
            | Inr events \<Rightarrow>
                (let processed_events = process_events now events;
                     result = initial_result
                       \<lparr>has_calendar := True,
                        important_events := important_events_of fmt_day processed_events,
                        events_on_date :=
                          (case target_date of
                             None \<Rightarrow> []
                           | Some td \<Rightarrow> map date_event_of processed_events),
                        suggested_slots :=
                          find_available_slots fmt_day tz now_slots processed_events
                            target_date total_time_needed buffer_time,
                        day_before_suggestions :=
                          List.map_filter
                            (day_before_of fmt_day tz now processed_events service_type
                               total_time_needed buffer_time)
                            (important_events_of fmt_day processed_events)\<rparr>
                 in result\<lparr>smart_suggestion :=
                      build_smart_suggestion result service_type service_duration target_date\<rparr>))
      else initial_result\<lparr>reasoning := ''User has not connected their Google Calendar''\<rparr>)"

section \<open>Importance by a language model\<close>



text \<open>
  \<^verbatim>\<open>s.split(sep)\<close> for a separator that is not empty: the pieces between the
  occurrences of the separator, read from the left.
\<close>

function split_from :: "string \<Rightarrow> string \<Rightarrow> string \<Rightarrow> string list" where
  "split_from sep piece [] = [rev piece]"
| "split_from sep piece (c # cs) =
     (if sep \<noteq> [] \<and> starts_with sep (c # cs)
      then rev piece # split_from sep [] (drop (length sep) (c # cs))
      else split_from sep (c # piece) cs)"
  by pat_completeness auto
termination
  by (relation "measure (\<lambda>(sep, piece, s). length s)") auto

definition split :: "string \<Rightarrow> string \<Rightarrow> string list" where
  "split s sep = split_from sep [] s"








text \<open>What \<^verbatim>\<open>json.loads\<close> returns. A number is kept as the text of its literal.\<close>

datatype json =
    JNull
  | JBool bool
  | JNumber string
  | JString string
  | JArray "json list"
  | JObject "(string \<times> json) list"







section \<open>Vocabulary of the properties\<close>

text \<open>
  Two periods intersect when some instant lies in both, each period taken from its
  start up to, but not including, its end.
\<close>

definition intersects :: "period \<Rightarrow> period \<Rightarrow> bool" where
  "intersects p q =
     (max (instant (fst p)) (instant (fst q)) < min (instant (snd p)) (instant (snd q)))"

definition starts_on :: "datetime \<Rightarrow> event \<Rightarrow> bool" where
  "starts_on target e = (dt_date (ev_start e) = dt_date target)"

text \<open>No event of the list ends after an event of the list that starts no earlier.\<close>

definition ends_in_start_order :: "event list \<Rightarrow> bool" where
  "ends_in_start_order es =
     (\<forall>a\<in>set es. \<forall>b\<in>set es.
        instant (ev_start a) \<le> instant (ev_start b) \<longrightarrow> instant (ev_end a) \<le> instant (ev_end b))"

text \<open>A provider that answers inside one window only, and raises elsewhere.\<close>

definition only_window ::
    "datetime \<times> datetime \<Rightarrow> (datetime \<Rightarrow> datetime \<Rightarrow> string + raw_event list)
       \<Rightarrow> datetime \<Rightarrow> datetime \<Rightarrow> string + raw_event list" where
  "only_window window fetch a b =
     (if (a, b) = window then fetch a b else Inl ''outside the window'')"

text \<open>A provider's event that has ended strictly before \<open>now\<close>, and a provider without them.\<close>

definition ended_before :: "datetime \<Rightarrow> raw_event \<Rightarrow> bool" where
  "ended_before now event =
     (case raw_end event of None \<Rightarrow> False | Some end_dt \<Rightarrow> dt_less end_dt now)"

definition still_running :: "datetime \<Rightarrow> raw_event \<Rightarrow> bool" where
  "still_running now event = (\<not> ended_before now event)"

definition without_past ::
    "datetime \<Rightarrow> (datetime \<Rightarrow> datetime \<Rightarrow> string + raw_event list)
       \<Rightarrow> datetime \<Rightarrow> datetime \<Rightarrow> string + raw_event list" where
  "without_past now fetch a b =
     (case fetch a b of
        Inl message \<Rightarrow> Inl message
      | Inr events \<Rightarrow> Inr (filter (still_running now) events))"

text \<open>The day before the start of an important event, as the entry point computes it.\<close>

definition day_before :: "important_event \<Rightarrow> datetime" where
  "day_before important_event = dt_add (ie_start_dt important_event) (- td_days 1)"

section \<open>Inputs for the examples\<close>

text \<open>
  The wall-clock reading of a day, an hour and a minute; a zone that is five hours
  behind UTC all year; and a stand-in for the library's rendering of a date.
\<close>

definition at_time :: "int \<Rightarrow> int \<Rightarrow> int \<Rightarrow> naive" where
  "at_time day h m = td_days day + td_hours h + td_minutes m"

definition eastern :: tzone where
  "eastern n = td_hours (- 5)"

definition at_east :: "int \<Rightarrow> int \<Rightarrow> int \<Rightarrow> datetime" where
  "at_east day h m = localize eastern (at_time day h m)"

definition day_text :: "datetime \<Rightarrow> string" where
  "day_text d = ''day '' @ decimal (nat (dt_date d))"

definition an_event :: "string \<Rightarrow> datetime \<Rightarrow> datetime \<Rightarrow> event" where
  "an_event n s e = \<lparr>ev_name = n, ev_start = s, ev_end = e, ev_location = []\<rparr>"

definition a_raw_event :: "string \<Rightarrow> datetime \<Rightarrow> datetime \<Rightarrow> raw_event" where
  "a_raw_event n s e =
     \<lparr>raw_summary = Some n, raw_start = Some s, raw_end = Some e, raw_location = None\<rparr>"

definition calendar_of :: "raw_event list \<Rightarrow> datetime \<Rightarrow> datetime \<Rightarrow> string + raw_event list" where
  "calendar_of events a b = Inr events"





section \<open>Arithmetic of the wall clock\<close>

lemma drop_field:
  fixes w :: int
  assumes "small dvd big"
  shows "w + (0 - w mod big div small) * small = w div big * big + w mod small"
proof -
  have m: "w mod big mod small = w mod small"
    using assms by (rule mod_mod_cancel)
  define h where "h = w mod big div small"
  have a: "w mod big = h * small + w mod small"
    unfolding h_def using div_mult_mod_eq [of "w mod big" small] m by simp
  have b: "w = w div big * big + w mod big" by simp
  have "w + (0 - h) * small = w - h * small" by (simp add: algebra_simps)
  also have "\<dots> = w div big * big + (w mod big - h * small)" using b by linarith
  also have "\<dots> = w div big * big + w mod small" using a by simp
  finally show ?thesis unfolding h_def .
qed

lemma drop_next_field:
  fixes w :: int
  assumes "small dvd mid" and "mid dvd d"
  shows "(d + w mod mid) + (0 - (d + w mod mid) mod mid div small) * small = d + w mod small"
proof -
  have r: "(d + w mod mid) mod mid = w mod mid"
    using assms(2) by (elim dvdE) simp
  have m: "w mod mid mod small = w mod small"
    using assms(1) by (rule mod_mod_cancel)
  define h where "h = w mod mid div small"
  have a: "w mod mid = h * small + w mod small"
    unfolding h_def using div_mult_mod_eq [of "w mod mid" small] m by simp
  have "(d + w mod mid) + (0 - h) * small = d + (w mod mid - h * small)"
    by (simp add: algebra_simps)
  also have "\<dots> = d + w mod small" using a by simp
  finally show ?thesis unfolding r h_def .
qed

lemma replace_hour_zero: "replace_hour 0 w = td_days (naive_date w) + w mod 3600000000"
  unfolding replace_hour_def naive_hour_def naive_date_def td_hours_def td_days_def
  using drop_field [of 3600000000 86400000000 w] by (simp add: mult.commute)

lemma replace_minute_zero:
  "replace_minute 0 (td_days q + w mod 3600000000) = td_days q + w mod 60000000"
  unfolding replace_minute_def naive_minute_def td_minutes_def td_days_def
  using drop_next_field [of 60000000 3600000000 "q * 86400000000" w] by simp

lemma replace_second_zero:
  "replace_second 0 (td_days q + w mod 60000000) = td_days q + w mod 1000000"
  unfolding replace_second_def naive_second_def td_days_def
  using drop_next_field [of 1000000 60000000 "q * 86400000000" w] by simp

lemma replace_microsecond_zero:
  "replace_microsecond 0 (td_days q + w mod 1000000) = td_days q"
proof -
  have "(1000000::int) dvd td_days q" by (simp add: td_days_def)
  then have "(td_days q + w mod 1000000) mod 1000000 = w mod 1000000"
    by (elim dvdE) simp
  then show ?thesis by (simp add: replace_microsecond_def naive_microsecond_def)
qed

text \<open>
  Setting the hour, the minute and the second to 0 gives the midnight of the same day,
  plus the microseconds that the datetime had; setting the microsecond to 0 as well gives
  the midnight.
\<close>

lemma start_of_day_keeps_microsecond:
  "replace_second 0 (replace_minute 0 (replace_hour 0 w)) = td_days (naive_date w) + w mod 1000000"
  by (simp add: replace_hour_zero replace_minute_zero replace_second_zero)

lemma start_of_day:
  "replace_microsecond 0 (replace_second 0 (replace_minute 0 (replace_hour 0 w)))
     = td_days (naive_date w)"
  by (simp add: start_of_day_keeps_microsecond replace_microsecond_zero)

lemma instant_dt_add: "instant (dt_add d t) = instant d + t"
  by (simp add: instant_def dt_add_def on_wall_def)

section \<open>The slot finder\<close>

lemma gaps_between_fit:
  "g \<in> set (gaps_between es n b) \<Longrightarrow>
     gap_fits (dt_sub (gap_end g) (gap_start g)) n \<and> gap_type g = between_events"
  by (induction es n b rule: gaps_between.induct) (auto simp: Let_def split: if_splits)

text \<open>
  The three kinds of slot next to an event are emitted only when they hold the required
  minutes.
\<close>

lemma slots_next_to_events_fit:
  assumes "g \<in> set (available_gaps tz now events target_date total_time_needed buffer_time)"
    and "gap_type g \<noteq> free_day"
  shows "gap_fits (dt_sub (gap_end g) (gap_start g)) total_time_needed"
proof (cases target_date)
  case None
  with assms show ?thesis by (simp add: available_gaps_def)
next
  case (Some td)
  with assms consider
      (between) "g \<in> set (gaps_between (day_events_of events (target_midnight tz td))
                    total_time_needed (td_minutes buffer_time))"
    | (other) "gap_fits (dt_sub (gap_end g) (gap_start g)) total_time_needed"
    by (auto simp: available_gaps_def Let_def split: if_splits)
  then show ?thesis
  proof cases
    case between
    then show ?thesis by (simp add: gaps_between_fit)
  next
    case other
    then show ?thesis .
  qed
qed

text \<open>
  C1 (minimum duration of every emitted slot, the free-day slot included). The three
  windows next to events are emitted only when they fit the required minutes; the
  free-day window is emitted without that test. At 18:50 of the target day, with no
  event on it and 120 minutes required, the function emits one slot of kind
  \<open>free_day\<close> that starts at 19:20 and ends at 19:00: its end is before its start, and
  it does not hold the required minutes.
\<close>

theorem free_day_slot_shorter_than_required:
  "available_gaps eastern (at_east 100 18 50) [] (Some (at_time 100 0 0)) 120 30
     = [\<lparr>gap_start = at_east 100 19 20, gap_end = at_east 100 19 0, gap_type = free_day,
         gap_note = ''Your calendar is free this day!''\<rparr>]
   \<and> \<not> gap_fits (dt_sub (at_east 100 19 0) (at_east 100 19 20)) 120
   \<and> dt_less (at_east 100 19 0) (at_east 100 19 20)
   \<and> find_available_slots day_text eastern (at_east 100 18 50) [] (Some (at_time 100 0 0)) 120 30
     = [\<lparr>start_time = ''07:20 PM'', end_time = ''07:00 PM'', slot_date = ''day 100'',
         slot_kind = free_day, slot_note = ''Your calendar is free this day!''\<rparr>]"
  by code_simp

text \<open>
  C5 (the window of today starts at the later of 09:00 and now plus 30 minutes). The
  function moves the start to now plus 30 minutes only when the hour of now is at least
  9. At 08:45 of the target day the window starts at 09:00, which is before 09:15, and
  the free-day slot of that call starts at 09:00.
\<close>

theorem window_start_before_nine:
  "window_start (at_east 100 8 45) (target_midnight eastern (at_time 100 0 0)) = at_east 100 9 0
   \<and> dt_add (at_east 100 8 45) (td_minutes 30) = at_east 100 9 15
   \<and> dt_less (at_east 100 9 0) (dt_add (at_east 100 8 45) (td_minutes 30))
   \<and> available_gaps eastern (at_east 100 8 45) [] (Some (at_time 100 0 0)) 120 30
     = [\<lparr>gap_start = at_east 100 9 0, gap_end = at_east 100 19 0, gap_type = free_day,
         gap_note = ''Your calendar is free this day!''\<rparr>]"
  by code_simp

text \<open>
  The selector, for its part, takes the later of 09:00 and its own clamp, now plus one
  hour, by comparing the two.
\<close>

lemma best_day_start_is_later_one:
  assumes "dt_date target_day = dt_date now"
  shows "instant (best_day_start tz target_day now)
     = max (instant (localize tz (replace_microsecond 0 (replace_second 0
              (replace_minute 0 (replace_hour 9 (wall target_day)))))))
           (instant (dt_add now (td_hours 1)))"
  using assms by (simp add: best_day_start_def Let_def dt_less_def max_def)

subsection \<open>Slots and busy periods\<close>

lemma gaps_between_adjacent:
  "g \<in> set (gaps_between es n b) \<Longrightarrow>
     \<exists>xs e1 e2 ys. es = xs @ e1 # e2 # ys
        \<and> gap_start g = dt_add (ev_end e1) b \<and> gap_end g = dt_add (ev_start e2) (- b)"
proof (induction es n b rule: gaps_between.induct)
  case (1 e1 e2 es n b)
  from "1.prems" consider
      (here) "gap_start g = dt_add (ev_end e1) b" "gap_end g = dt_add (ev_start e2) (- b)"
    | (later) "g \<in> set (gaps_between (e2 # es) n b)"
    by (auto simp: Let_def split: if_splits)
  then show ?case
  proof cases
    case here
    then have "e1 # e2 # es = [] @ e1 # e2 # es \<and> gap_start g = dt_add (ev_end e1) b
        \<and> gap_end g = dt_add (ev_start e2) (- b)"
      by simp
    then show ?thesis by blast
  next
    case later
    from "1.IH" [OF later] obtain xs a c ys where
      "e2 # es = xs @ a # c # ys" "gap_start g = dt_add (ev_end a) b"
      "gap_end g = dt_add (ev_start c) (- b)"
      by blast
    then have "e1 # e2 # es = (e1 # xs) @ a # c # ys \<and> gap_start g = dt_add (ev_end a) b
        \<and> gap_end g = dt_add (ev_start c) (- b)"
      by simp
    then show ?thesis by blast
  qed
qed simp_all

lemma no_intersection_after: "instant (snd q) \<le> instant (fst p) \<Longrightarrow> \<not> intersects p q"
  by (simp add: intersects_def)

lemma no_intersection_before: "instant (snd p) \<le> instant (fst q) \<Longrightarrow> \<not> intersects p q"
  by (simp add: intersects_def)

lemma day_events_sorted:
  "sorted (map (\<lambda>e. instant (ev_start e)) (day_events_of events target))"
  by (simp add: day_events_of_def)

lemma set_day_events: "set (day_events_of events target) = {e \<in> set events. starts_on target e}"
  by (auto simp: day_events_of_def starts_on_def)

lemma ends_day_events:
  "ends_in_start_order (filter (starts_on target) events) \<Longrightarrow>
     ends_in_start_order (day_events_of events target)"
  by (simp add: ends_in_start_order_def set_day_events)

text \<open>
  C2 (no emitted slot intersects a buffered busy period of any input event, events that
  start on another day included). The function keeps only the events whose start falls
  on the target date. An event from 23:00 of the day before to 10:00 of the target day is
  dropped, the day counts as free, and the emitted slot from 09:00 to 19:00 intersects
  the busy period of that event, which lasts until 10:30.
\<close>

theorem slot_over_event_of_previous_day:
  "available_gaps eastern (at_east 50 12 0)
       [an_event ''Night shift'' (at_east 99 23 0) (at_east 100 10 0)]
       (Some (at_time 100 0 0)) 120 30
     = [\<lparr>gap_start = at_east 100 9 0, gap_end = at_east 100 19 0, gap_type = free_day,
         gap_note = ''Your calendar is free this day!''\<rparr>]
   \<and> busy_period 30 (an_event ''Night shift'' (at_east 99 23 0) (at_east 100 10 0))
     = (at_east 99 22 30, at_east 100 10 30)
   \<and> intersects (at_east 100 9 0, at_east 100 19 0) (at_east 99 22 30, at_east 100 10 30)"
  by code_simp

text \<open>
  C2 as amended: when no event that starts on the target date ends after another such
  event that starts no earlier, no emitted slot intersects the buffered busy period of
  any input event that starts on the target date.
\<close>

theorem slots_clear_of_day_events:
  assumes order: "ends_in_start_order (filter (starts_on (target_midnight tz td)) events)"
    and g: "g \<in> set (available_gaps tz now events (Some td) total_time_needed buffer_time)"
    and e: "e \<in> set events" "starts_on (target_midnight tz td) e"
  shows "\<not> intersects (gap_start g, gap_end g) (busy_period buffer_time e)"
proof -
  define D where "D = day_events_of events (target_midnight tz td)"
  define key :: "event \<Rightarrow> int" where "key = (\<lambda>e. instant (ev_start e))"
  have eD: "e \<in> set D" using e by (simp add: D_def set_day_events)
  then have ne: "D \<noteq> []" by auto
  have srt: "sorted (map key D)" unfolding D_def key_def by (rule day_events_sorted)
  have ord: "ends_in_start_order D" unfolding D_def using order by (rule ends_day_events)
  have first: "key (hd D) \<le> key e"
    using srt eD ne by (cases D) auto
  have last: "key e \<le> key (last D)"
    using srt eD ne by (induction D) (auto split: if_splits)
  from g ne consider
      (before) "gap_end g = dt_add (ev_start (hd D)) (- td_minutes buffer_time)"
    | (between) "g \<in> set (gaps_between D total_time_needed (td_minutes buffer_time))"
    | (after) "gap_start g = dt_add (ev_end (last D)) (td_minutes buffer_time)"
    by (auto simp: available_gaps_def Let_def D_def split: if_splits)
  then show ?thesis
  proof cases
    case before
    then show ?thesis using first
      by (intro no_intersection_before) (simp add: busy_period_def instant_dt_add key_def)
  next
    case after
    have "instant (ev_end e) \<le> instant (ev_end (last D))"
      using ord eD ne last by (auto simp: ends_in_start_order_def key_def)
    with after show ?thesis
      by (intro no_intersection_after) (simp add: busy_period_def instant_dt_add)
  next
    case between
    then obtain xs e1 e2 ys where D: "D = xs @ e1 # e2 # ys"
      and gs: "gap_start g = dt_add (ev_end e1) (td_minutes buffer_time)"
      and ge: "gap_end g = dt_add (ev_start e2) (- td_minutes buffer_time)"
      using gaps_between_adjacent by blast
    from eD D consider (left) "e \<in> set xs \<union> {e1}" | (right) "e \<in> set (e2 # ys)"
      by auto
    then show ?thesis
    proof cases
      case left
      then have "key e \<le> key e1"
        using srt D by (auto simp: sorted_append)
      then have "instant (ev_end e) \<le> instant (ev_end e1)"
        using ord eD D by (auto simp: ends_in_start_order_def key_def)
      with gs show ?thesis
        by (intro no_intersection_after) (simp add: busy_period_def instant_dt_add)
    next
      case right
      then have "key e2 \<le> key e"
        using srt D by (auto simp: sorted_append)
      with ge show ?thesis
        by (intro no_intersection_before) (simp add: busy_period_def instant_dt_add key_def)
    qed
  qed
qed

text \<open>
  Two events, from 10:00 to 11:00 and from 14:00 to 15:00, with 120 minutes required:
  the slot between them, from 11:30 to 13:30, is emitted and does not intersect the busy
  period of the first event.
\<close>

theorem slots_clear_of_day_events_witness:
  "ends_in_start_order (filter (starts_on (target_midnight eastern (at_time 100 0 0)))
       [an_event ''Review'' (at_east 100 10 0) (at_east 100 11 0),
        an_event ''Call'' (at_east 100 14 0) (at_east 100 15 0)])
   \<and> \<lparr>gap_start = at_east 100 11 30, gap_end = at_east 100 13 30, gap_type = between_events,
       gap_note = ''Between Review and Call''\<rparr>
       \<in> set (available_gaps eastern (at_east 50 12 0)
           [an_event ''Review'' (at_east 100 10 0) (at_east 100 11 0),
            an_event ''Call'' (at_east 100 14 0) (at_east 100 15 0)]
           (Some (at_time 100 0 0)) 120 30)
   \<and> starts_on (target_midnight eastern (at_time 100 0 0))
       (an_event ''Review'' (at_east 100 10 0) (at_east 100 11 0))
   \<and> \<not> intersects (at_east 100 11 30, at_east 100 13 30)
       (busy_period 30 (an_event ''Review'' (at_east 100 10 0) (at_east 100 11 0)))"
proof -
  let ?evs = "[an_event ''Review'' (at_east 100 10 0) (at_east 100 11 0),
               an_event ''Call'' (at_east 100 14 0) (at_east 100 15 0)]"
  let ?g = "\<lparr>gap_start = at_east 100 11 30, gap_end = at_east 100 13 30,
             gap_type = between_events, gap_note = ''Between Review and Call''\<rparr>"
  have h1: "ends_in_start_order (filter (starts_on (target_midnight eastern (at_time 100 0 0))) ?evs)"
    by code_simp
  have h2: "?g \<in> set (available_gaps eastern (at_east 50 12 0) ?evs (Some (at_time 100 0 0)) 120 30)"
    by code_simp
  have h3: "an_event ''Review'' (at_east 100 10 0) (at_east 100 11 0) \<in> set ?evs"
    by simp
  have h4: "starts_on (target_midnight eastern (at_time 100 0 0))
      (an_event ''Review'' (at_east 100 10 0) (at_east 100 11 0))"
    by code_simp
  from slots_clear_of_day_events [OF h1 h2 h3 h4] h1 h2 h4 show ?thesis
    by simp
qed

text \<open>
  The order of the ends is needed: an event from 09:00 to 17:00 and one inside it, from
  10:00 to 11:00, give a slot after the second event, from 11:30 to 19:00, that
  intersects the busy period of the first.
\<close>

lemma slot_over_enclosing_event:
  "available_gaps eastern (at_east 50 12 0)
       [an_event ''Fair'' (at_east 100 9 0) (at_east 100 17 0),
        an_event ''Talk'' (at_east 100 10 0) (at_east 100 11 0)]
       (Some (at_time 100 0 0)) 120 30
     = [\<lparr>gap_start = at_east 100 11 30, gap_end = at_east 100 19 0,
         gap_type = after_last_event, gap_note = ''After your Talk''\<rparr>]
   \<and> intersects (at_east 100 11 30, at_east 100 19 0)
       (busy_period 30 (an_event ''Fair'' (at_east 100 9 0) (at_east 100 17 0)))"
  by code_simp

section \<open>The best-slot selector\<close>

text \<open>
  The rounding of the selector by the minute of the start: below 30 the minute is set
  to 0, at 30 the start is kept, above 30 the next full hour is taken.
\<close>

lemma round_first_slot_cases:
  "round_first_slot (s, e)
     = (if dt_minute s < 30 then on_wall (replace_minute 0) s
        else if dt_minute s = 30 then s
        else dt_add (on_wall (replace_minute 0) s) (td_hours 1))"
  by (simp add: round_first_slot_def Let_def on_wall_def replace_minute_def dt_minute_def
      td_minutes_def)

text \<open>
  C4 (without a priority hour, the start of the first window rounded up to the half
  hour). One event from 09:00 to 14:40 leaves the window from 15:10 to 19:00, which
  holds no hour from 10 to 14. The minute 10 is below 30, so the function sets the
  minute to 0 and returns 3:00 PM: a time before the window opens, where rounding up
  gives 3:30 PM.
\<close>

theorem first_slot_rounded_down:
  "free_periods eastern (at_east 99 18 0)
       [an_event ''Workshop'' (at_east 99 9 0) (at_east 99 14 40)] 120 30 (at_east 50 12 0)
     = [(at_east 99 15 10, at_east 99 19 0)]
   \<and> try_slots [(at_east 99 15 10, at_east 99 19 0)] = None
   \<and> round_first_slot (at_east 99 15 10, at_east 99 19 0) = at_east 99 15 0
   \<and> find_best_slot_for_day eastern (at_east 99 18 0)
       [an_event ''Workshop'' (at_east 99 9 0) (at_east 99 14 40)] 120 30 (at_east 50 12 0)
     = ''3:00 PM''"
  by code_simp

section \<open>The entry point\<close>

lemma analysis_of_fetched:
  assumes "has_token"
    and "fetch (fst (date_range tz now target_date)) (snd (date_range tz now target_date))
           = Inr events"
  shows "important_events
           (analyze_calendar_for_smart_suggestions fmt_day tz now now_slots has_token fetch
              service_type target_date)
         = important_events_of fmt_day (process_events now events)"
    and "day_before_suggestions
           (analyze_calendar_for_smart_suggestions fmt_day tz now now_slots has_token fetch
              service_type target_date)
         = List.map_filter
             (day_before_of fmt_day tz now (process_events now events) service_type
                (service_duration_of service_type + 30 * 2) 30)
             (important_events_of fmt_day (process_events now events))"
    and "suggested_slots
           (analyze_calendar_for_smart_suggestions fmt_day tz now now_slots has_token fetch
              service_type target_date)
         = find_available_slots fmt_day tz now_slots (process_events now events) target_date
             (service_duration_of service_type + 30 * 2) 30"
  using assms by (simp_all add: analyze_calendar_for_smart_suggestions_def Let_def)

lemma analysis_without_token:
  assumes "\<not> has_token"
  shows "important_events
           (analyze_calendar_for_smart_suggestions fmt_day tz now now_slots has_token fetch
              service_type target_date) = []"
    and "day_before_suggestions
           (analyze_calendar_for_smart_suggestions fmt_day tz now now_slots has_token fetch
              service_type target_date) = []"
    and "suggested_slots
           (analyze_calendar_for_smart_suggestions fmt_day tz now now_slots has_token fetch
              service_type target_date) = []"
  using assms
  by (simp_all add: analyze_calendar_for_smart_suggestions_def initial_result_def)

subsection \<open>The 24-hour rule\<close>

lemma day_before_loop:
  "map (\<lambda>s. (event_name s, event_date s))
       (List.map_filter (day_before_of fmt_day tz now processed service_type needed buffer) imps)
     = map (\<lambda>i. (ie_name i, ie_date i))
         (filter (\<lambda>i. td_hours 24 \<le> dt_sub (ie_start_dt i) now) imps)"
  by (induction imps) (auto simp: List.map_filter_simps day_before_of_def Let_def)

text \<open>
  C6 (the 24-hour rule). The day-before suggestions of an analysis are, in order and one
  for one, the important events of that analysis whose start is at least 24 hours after
  now: an important event that starts less than 24 hours after now gives no
  suggestion, and each of the others gives exactly one, with its name and its date.
\<close>

theorem day_before_suggestions_follow_24_hour_rule:
  "map (\<lambda>s. (event_name s, event_date s))
       (day_before_suggestions
          (analyze_calendar_for_smart_suggestions fmt_day tz now now_slots has_token fetch
             service_type target_date))
     = map (\<lambda>i. (ie_name i, ie_date i))
         (filter (\<lambda>i. td_hours 24 \<le> dt_sub (ie_start_dt i) now)
            (important_events
               (analyze_calendar_for_smart_suggestions fmt_day tz now now_slots has_token fetch
                  service_type target_date)))"
proof (cases "has_token")
  case False
  then show ?thesis by (simp add: analysis_without_token)
next
  case True
  show ?thesis
  proof (cases "fetch (fst (date_range tz now target_date)) (snd (date_range tz now target_date))")
    case (Inl message)
    then show ?thesis
      by (simp add: analyze_calendar_for_smart_suggestions_def Let_def initial_result_def)
  next
    case (Inr events)
    with True show ?thesis by (simp only: analysis_of_fetched day_before_loop)
  qed
qed

subsection \<open>Events that have ended\<close>

lemma process_events_without_past:
  "process_events now (filter (still_running now) events) = process_events now events"
  by (induction events)
    (auto simp: process_events_def process_event_def still_running_def ended_before_def
      split: option.splits)

text \<open>
  C7 (events that ended before now). Dropping from the provider's answer every event
  whose end is strictly before now changes neither the list of processed events, from
  which the important events, the events on the target date and the slots are all
  computed, nor any field of the analysis.
\<close>

theorem past_events_do_not_count:
  "process_events now (filter (still_running now) events) = process_events now events
   \<and> analyze_calendar_for_smart_suggestions fmt_day tz now now_slots has_token
       (without_past now fetch) service_type target_date
     = analyze_calendar_for_smart_suggestions fmt_day tz now now_slots has_token fetch
         service_type target_date"
proof
  show "process_events now (filter (still_running now) events) = process_events now events"
    by (rule process_events_without_past)
next
  show "analyze_calendar_for_smart_suggestions fmt_day tz now now_slots has_token
       (without_past now fetch) service_type target_date
     = analyze_calendar_for_smart_suggestions fmt_day tz now now_slots has_token fetch
         service_type target_date"
    by (cases "fetch (fst (date_range tz now target_date)) (snd (date_range tz now target_date))")
      (simp_all add: analyze_calendar_for_smart_suggestions_def without_past_def Let_def
        process_events_without_past)
qed

subsection \<open>The window of the fetch\<close>

lemma date_range_of_target:
  "date_range tz now (Some td)
     = (target_midnight tz td, dt_add (target_midnight tz td) (td_days 1))"
  by (simp add: date_range_def target_midnight_def Let_def)

lemma date_range_of_week:
  "date_range tz now None
     = (\<lparr>wall = td_days (dt_date now), utcoff = utcoff now\<rparr>,
        \<lparr>wall = td_days (dt_date now + 7), utcoff = utcoff now\<rparr>)"
  by (simp add: date_range_def Let_def on_wall_def start_of_day dt_add_def dt_date_def td_days_def
      algebra_simps)

lemma fetch_only_in_window:
  "analyze_calendar_for_smart_suggestions fmt_day tz now now_slots has_token
       (only_window (date_range tz now target_date) fetch) service_type target_date
     = analyze_calendar_for_smart_suggestions fmt_day tz now now_slots has_token fetch
         service_type target_date"
  by (simp add: analyze_calendar_for_smart_suggestions_def only_window_def Let_def)

text \<open>
  C3 (without a target date, the whole-day slots of the next seven days). Without a
  target date the slot finder returns its empty list. For a user whose calendar holds no
  event at all the analysis has no suggested slot, although the same call with
  tomorrow as the target date finds the whole business day free.
\<close>

theorem no_slot_without_target_date:
  "suggested_slots
     (analyze_calendar_for_smart_suggestions day_text eastern (at_east 100 8 0) (at_east 100 8 0)
        True (calendar_of []) ''haircut'' None) = []
   \<and> suggested_slots
     (analyze_calendar_for_smart_suggestions day_text eastern (at_east 100 8 0) (at_east 100 8 0)
        True (calendar_of []) ''haircut'' (Some (at_time 101 0 0)))
     = [\<lparr>start_time = ''09:00 AM'', end_time = ''07:00 PM'', slot_date = ''day 101'',
         slot_kind = free_day, slot_note = ''Your calendar is free this day!''\<rparr>]"
  by code_simp

text \<open>
  C3 as amended: without a target date the entry point asks the provider for the seven
  days that start at the midnight of today, and for nothing else, and it searches no
  slot: the slot finder returns the empty list and the analysis has no suggested slot.
\<close>

theorem slot_search_needs_target_date:
  "find_available_slots fmt_day tz now_slots events None total_time_needed buffer_time = []
   \<and> suggested_slots
       (analyze_calendar_for_smart_suggestions fmt_day tz now now_slots has_token fetch
          service_type None) = []
   \<and> date_range tz now None
       = (\<lparr>wall = td_days (dt_date now), utcoff = utcoff now\<rparr>,
          \<lparr>wall = td_days (dt_date now + 7), utcoff = utcoff now\<rparr>)
   \<and> analyze_calendar_for_smart_suggestions fmt_day tz now now_slots has_token
       (only_window (date_range tz now None) fetch) service_type None
       = analyze_calendar_for_smart_suggestions fmt_day tz now now_slots has_token fetch
           service_type None"
proof (intro conjI)
  show "find_available_slots fmt_day tz now_slots events None total_time_needed buffer_time = []"
    by (simp add: find_available_slots_def)
  show "suggested_slots
       (analyze_calendar_for_smart_suggestions fmt_day tz now now_slots has_token fetch
          service_type None) = []"
    by (cases "fetch (fst (date_range tz now None)) (snd (date_range tz now None))")
      (simp_all add: analyze_calendar_for_smart_suggestions_def Let_def initial_result_def
        find_available_slots_def)
  show "date_range tz now None
       = (\<lparr>wall = td_days (dt_date now), utcoff = utcoff now\<rparr>,
          \<lparr>wall = td_days (dt_date now + 7), utcoff = utcoff now\<rparr>)"
    by (rule date_range_of_week)
  show "analyze_calendar_for_smart_suggestions fmt_day tz now now_slots has_token
       (only_window (date_range tz now None) fetch) service_type None
       = analyze_calendar_for_smart_suggestions fmt_day tz now now_slots has_token fetch
           service_type None"
    by (rule fetch_only_in_window)
qed

subsection \<open>The day before an important event\<close>

lemma best_slot_of_free_day:
  "find_best_slot_for_day tz target_day [] total_time_needed buffer_time now = ''11:00 AM''"
  by (simp add: find_best_slot_for_day_def)

lemma day_before_of_free_day:
  assumes "list_all (\<lambda>e. dt_date (ev_start e) \<noteq> dt_date (day_before i)) processed"
  shows "map_option suggested_time
           (day_before_of fmt_day tz now processed service_type needed buffer i)
         = (if dt_sub (ie_start_dt i) now < td_hours 24 then None else Some ''11:00 AM'')"
proof -
  from assms have
    "filter (\<lambda>e. dt_date (ev_start e) = dt_date (dt_add (ie_start_dt i) (- td_days 1))) processed
       = []"
    by (simp add: day_before_def list_all_iff filter_empty_conv)
  then show ?thesis
    by (simp add: day_before_of_def Let_def best_slot_of_free_day)
qed

text \<open>
  C10 (with a target date, the day before lies outside the fetched window). With a
  target date the entry point asks the provider for the window from the midnight of the
  target date to one day later, and for nothing else. The day-before suggestions are
  computed from the events of that answer alone: for an important event, when none of
  them starts on the day before it, the suggested time is the default 11:00 AM (or the
  event is skipped by the 24-hour rule), whatever the user's calendar holds on that day.
\<close>

theorem day_before_default_in_one_day_window:
  assumes "has_token"
    and "fetch (target_midnight tz td) (dt_add (target_midnight tz td) (td_days 1)) = Inr events"
  shows "analyze_calendar_for_smart_suggestions fmt_day tz now now_slots has_token
         (only_window (target_midnight tz td, dt_add (target_midnight tz td) (td_days 1)) fetch)
         service_type (Some td)
       = analyze_calendar_for_smart_suggestions fmt_day tz now now_slots has_token fetch
           service_type (Some td)
     \<and> day_before_suggestions
         (analyze_calendar_for_smart_suggestions fmt_day tz now now_slots has_token fetch
            service_type (Some td))
       = List.map_filter
           (day_before_of fmt_day tz now (process_events now events) service_type
              (service_duration_of service_type + 60) 30)
           (important_events
              (analyze_calendar_for_smart_suggestions fmt_day tz now now_slots has_token fetch
                 service_type (Some td)))
     \<and> (\<forall>i. list_all (\<lambda>e. dt_date (ev_start e) \<noteq> dt_date (day_before i))
               (process_events now events)
          \<longrightarrow> map_option suggested_time
                (day_before_of fmt_day tz now (process_events now events) service_type
                   (service_duration_of service_type + 60) 30 i)
              = (if dt_sub (ie_start_dt i) now < td_hours 24 then None else Some ''11:00 AM''))"
proof (intro conjI allI impI)
  show "analyze_calendar_for_smart_suggestions fmt_day tz now now_slots has_token
         (only_window (target_midnight tz td, dt_add (target_midnight tz td) (td_days 1)) fetch)
         service_type (Some td)
       = analyze_calendar_for_smart_suggestions fmt_day tz now now_slots has_token fetch
           service_type (Some td)"
    using fetch_only_in_window [of fmt_day tz now now_slots has_token "Some td" fetch service_type]
    by (simp add: date_range_of_target)
next
  have "fetch (fst (date_range tz now (Some td))) (snd (date_range tz now (Some td))) = Inr events"
    using assms(2) by (simp add: date_range_of_target)
  from analysis_of_fetched(1,2)
    [where fetch = fetch and tz = tz and now = now and target_date = "Some td", OF assms(1) this]
  show "day_before_suggestions
         (analyze_calendar_for_smart_suggestions fmt_day tz now now_slots has_token fetch
            service_type (Some td))
       = List.map_filter
           (day_before_of fmt_day tz now (process_events now events) service_type
              (service_duration_of service_type + 60) 30)
           (important_events
              (analyze_calendar_for_smart_suggestions fmt_day tz now now_slots has_token fetch
                 service_type (Some td)))"
    by simp
next
  fix i
  assume "list_all (\<lambda>e. dt_date (ev_start e) \<noteq> dt_date (day_before i)) (process_events now events)"
  then show "map_option suggested_time
                (day_before_of fmt_day tz now (process_events now events) service_type
                   (service_duration_of service_type + 60) 30 i)
              = (if dt_sub (ie_start_dt i) now < td_hours 24 then None else Some ''11:00 AM'')"
    by (rule day_before_of_free_day)
qed

text \<open>
  A wedding reception on the target date, ten days from now, and nothing else in the
  answer of the provider: the suggestion for the day before is 11:00 AM.
\<close>

theorem day_before_default_in_one_day_window_witness:
  "calendar_of [a_raw_event ''Wedding Reception'' (at_east 100 18 0) (at_east 100 22 0)]
       (target_midnight eastern (at_time 100 0 0))
       (dt_add (target_midnight eastern (at_time 100 0 0)) (td_days 1))
     = Inr [a_raw_event ''Wedding Reception'' (at_east 100 18 0) (at_east 100 22 0)]
   \<and> list_all
       (\<lambda>e. dt_date (ev_start e) \<noteq> dt_date (day_before
          (important_of day_text (an_event ''Wedding Reception'' (at_east 100 18 0) (at_east 100 22 0)))))
       (process_events (at_east 90 8 0)
          [a_raw_event ''Wedding Reception'' (at_east 100 18 0) (at_east 100 22 0)])
   \<and> map_option suggested_time
       (day_before_of day_text eastern (at_east 90 8 0)
          (process_events (at_east 90 8 0)
             [a_raw_event ''Wedding Reception'' (at_east 100 18 0) (at_east 100 22 0)])
          ''haircut'' (service_duration_of ''haircut'' + 60) 30
          (important_of day_text
             (an_event ''Wedding Reception'' (at_east 100 18 0) (at_east 100 22 0))))
     = Some ''11:00 AM''"
proof -
  let ?raw = "[a_raw_event ''Wedding Reception'' (at_east 100 18 0) (at_east 100 22 0)]"
  let ?i = "important_of day_text
      (an_event ''Wedding Reception'' (at_east 100 18 0) (at_east 100 22 0))"
  have h1: "True" by simp
  have h2: "calendar_of ?raw (target_midnight eastern (at_time 100 0 0))
       (dt_add (target_midnight eastern (at_time 100 0 0)) (td_days 1)) = Inr ?raw"
    by (simp add: calendar_of_def)
  have h3: "list_all (\<lambda>e. dt_date (ev_start e) \<noteq> dt_date (day_before ?i))
       (process_events (at_east 90 8 0) ?raw)"
    by code_simp
  have far: "\<not> dt_sub (ie_start_dt ?i) (at_east 90 8 0) < td_hours 24"
    by code_simp
  from day_before_default_in_one_day_window
    [where fetch = "calendar_of ?raw" and tz = eastern and td = "at_time 100 0 0"
       and fmt_day = day_text and now = "at_east 90 8 0" and service_type = "''haircut''",
     OF h1 h2]
  have "map_option suggested_time
       (day_before_of day_text eastern (at_east 90 8 0) (process_events (at_east 90 8 0) ?raw)
          ''haircut'' (service_duration_of ''haircut'' + 60) 30 ?i)
     = (if dt_sub (ie_start_dt ?i) (at_east 90 8 0) < td_hours 24 then None
        else Some ''11:00 AM'')"
    using h3 by blast
  with far h2 h3 show ?thesis by simp
qed

section \<open>The suggestion text\<close>

lemma join_empty_iff:
  assumes "\<forall>p\<in>set ps. p \<noteq> []"
  shows "join sep ps = [] \<longleftrightarrow> ps = []"
  using assms by (cases "(sep, ps)" rule: join.cases) auto

lemma events_sentence_empty: "events_sentence es = [] \<longleftrightarrow> es = []"
  by (auto simp: events_sentence_def split: list.splits)

lemma events_sentence_full: "p \<in> set (events_sentence es) \<Longrightarrow> p \<noteq> []"
  by (cases es; cases "tl es"; cases "tl (tl es)") (auto simp: events_sentence_def)

lemma slots_sentence_empty: "slots_sentence slots service_type = [] \<longleftrightarrow> slots = []"
  by (auto simp: slots_sentence_def split: list.splits)

lemma slots_sentence_full: "p \<in> set (slots_sentence slots service_type) \<Longrightarrow> p \<noteq> []"
  by (auto simp: slots_sentence_def split: list.splits if_splits)

lemma day_before_sentence_empty:
  "day_before_sentence suggestions service_type = [] \<longleftrightarrow> suggestions = []"
  by (auto simp: day_before_sentence_def split: list.splits)

lemma day_before_sentence_full:
  "p \<in> set (day_before_sentence suggestions service_type) \<Longrightarrow> p \<noteq> []"
  by (auto simp: day_before_sentence_def split: list.splits)

lemma suggestion_empty_iff:
  assumes "has_calendar a"
  shows "build_smart_suggestion a service_type service_duration target_date = []
     \<longleftrightarrow> suggested_slots a = [] \<and> day_before_suggestions a = []
         \<and> (target_date = None \<or> events_on_date a = [])"
proof -
  define parts where "parts =
    (case target_date of None \<Rightarrow> [] | Some td \<Rightarrow> events_sentence (events_on_date a))
    @ slots_sentence (suggested_slots a) service_type
    @ day_before_sentence (day_before_suggestions a) service_type"
  have full: "\<forall>p\<in>set parts. p \<noteq> []"
    by (auto simp: parts_def split: option.splits
        dest: events_sentence_full slots_sentence_full day_before_sentence_full)
  have "parts = [] \<longleftrightarrow> suggested_slots a = [] \<and> day_before_suggestions a = []
         \<and> (target_date = None \<or> events_on_date a = [])"
    by (auto simp: parts_def events_sentence_empty slots_sentence_empty
        day_before_sentence_empty split: option.splits)
  moreover have "build_smart_suggestion a service_type service_duration target_date
      = join '' '' parts"
    using assms by (simp add: build_smart_suggestion_def parts_def)
  ultimately show ?thesis
    using join_empty_iff [OF full] by simp
qed

text \<open>
  C9 (no availability: a sentinel from the selector, a message that is not empty from
  the composer). With calendar access, no event in the coming week and no target date,
  the analysis has no slot, no event on the target date and no day-before suggestion, and
  its suggestion text is the empty string.
\<close>

theorem empty_suggestion_without_availability:
  "has_calendar
     (analyze_calendar_for_smart_suggestions day_text eastern (at_east 100 8 0) (at_east 100 8 0)
        True (calendar_of []) ''haircut'' None)
   \<and> suggested_slots
     (analyze_calendar_for_smart_suggestions day_text eastern (at_east 100 8 0) (at_east 100 8 0)
        True (calendar_of []) ''haircut'' None) = []
   \<and> events_on_date
     (analyze_calendar_for_smart_suggestions day_text eastern (at_east 100 8 0) (at_east 100 8 0)
        True (calendar_of []) ''haircut'' None) = []
   \<and> day_before_suggestions
     (analyze_calendar_for_smart_suggestions day_text eastern (at_east 100 8 0) (at_east 100 8 0)
        True (calendar_of []) ''haircut'' None) = []
   \<and> smart_suggestion
     (analyze_calendar_for_smart_suggestions day_text eastern (at_east 100 8 0) (at_east 100 8 0)
        True (calendar_of []) ''haircut'' None) = []"
  by code_simp

text \<open>
  C9 as amended: when the day has events and none of its free windows qualifies, the
  selector returns the text \<open>No available time\<close>; and with calendar access the
  suggestion text is empty exactly when there is no slot, no day-before suggestion and
  no event on a given target date.
\<close>

theorem sentinel_and_empty_suggestion:
  "(events_on_day \<noteq> []
      \<and> free_periods tz target_day events_on_day total_time_needed buffer_time now = []
    \<longrightarrow> find_best_slot_for_day tz target_day events_on_day total_time_needed buffer_time now
        = ''No available time'')
   \<and> (has_calendar a
    \<longrightarrow> (build_smart_suggestion a service_type service_duration target_date = []
         \<longleftrightarrow> suggested_slots a = [] \<and> day_before_suggestions a = []
             \<and> (target_date = None \<or> events_on_date a = [])))"
  using suggestion_empty_iff by (simp add: find_best_slot_for_day_def)

text \<open>
  A day taken from 08:00 to 20:00 by one event has no free window, and the selector
  returns the sentinel; an analysis with calendar access and nothing else has the empty
  suggestion text.
\<close>

theorem sentinel_and_empty_suggestion_witness:
  "[an_event ''Inventory'' (at_east 99 8 0) (at_east 99 20 0)] \<noteq> []
   \<and> free_periods eastern (at_east 99 18 0)
       [an_event ''Inventory'' (at_east 99 8 0) (at_east 99 20 0)] 120 30 (at_east 50 12 0) = []
   \<and> find_best_slot_for_day eastern (at_east 99 18 0)
       [an_event ''Inventory'' (at_east 99 8 0) (at_east 99 20 0)] 120 30 (at_east 50 12 0)
     = ''No available time''
   \<and> has_calendar (initial_result\<lparr>has_calendar := True\<rparr>)
   \<and> build_smart_suggestion (initial_result\<lparr>has_calendar := True\<rparr>) ''haircut'' 60 None = []"
proof -
  let ?evs = "[an_event ''Inventory'' (at_east 99 8 0) (at_east 99 20 0)]"
  let ?a = "initial_result\<lparr>has_calendar := True\<rparr>"
  have h1: "?evs \<noteq> []" by simp
  have h2: "free_periods eastern (at_east 99 18 0) ?evs 120 30 (at_east 50 12 0) = []"
    by code_simp
  have h3: "has_calendar ?a" by simp
  have h4: "suggested_slots ?a = [] \<and> day_before_suggestions ?a = []"
    by (simp add: initial_result_def)
  from sentinel_and_empty_suggestion
    [of ?evs eastern "at_east 99 18 0" 120 30 "at_east 50 12 0" ?a "''haircut''" 60 None]
    h1 h2 h3 h4
  show ?thesis by simp
qed

section \<open>The detector with a language model\<close>










end
